theory Spec2Isabelle
  imports Complex_Main "HOL-Library.AList"
begin

section \<open>Python values, exceptions and statements\<close>

text \<open>
  The gateway keeps its per-child metrics in plain Python dictionaries whose values are
  integers, floats, strings and \<open>None\<close>. A float is idealised as a real number (no claim
  depends on rounding). \<open>PyIso t\<close> is the string \<open>utc_now().isoformat()\<close> taken at the
  instant \<open>t\<close>, an instant being a number of microseconds.
\<close>

datatype pyval = PyNone | PyInt int | PyFloat real | PyStr string | PyIso int

datatype py_error =
    KeyError | TypeError | AttributeError | ZeroDivisionError | JSONDecodeError
  | TimeoutException | ConnectError

text \<open>\<open>x += n\<close> for an integer \<open>n\<close>, and \<open>x += l\<close> for a float \<open>l\<close>.\<close>

fun iadd_int :: "pyval \<Rightarrow> int \<Rightarrow> py_error + pyval" where
  "iadd_int (PyInt a) n = Inr (PyInt (a + n))"
| "iadd_int (PyFloat a) n = Inr (PyFloat (a + of_int n))"
| "iadd_int _ n = Inl TypeError"

fun iadd_float :: "pyval \<Rightarrow> real \<Rightarrow> py_error + pyval" where
  "iadd_float (PyInt a) l = Inr (PyFloat (of_int a + l))"
| "iadd_float (PyFloat a) l = Inr (PyFloat (a + l))"
| "iadd_float _ l = Inl TypeError"

section \<open>Configuration entries\<close>

text \<open>
  A child entry of \<open>gateway_config.json\<close> is a JSON object. Its values have the shapes of
  the configuration schema: a string, or an object of strings (\<open>auth\<close>,
  \<open>module_envvars\<close>). An object is the list of its items, keys distinct, in order.
\<close>

datatype cfg_value = CStr string | CObj "(string \<times> string) list"

type_synonym server_config = "(string \<times> cfg_value) list"

section \<open>GatewayState\<close>

type_synonym metrics_record = "string \<rightharpoonup> pyval"

record connection =
  connected_at :: int
  last_seen :: int
  requests :: int

record gateway_state =
  child_servers :: "(string \<times> server_config) list"
  metrics :: "string \<rightharpoonup> metrics_record"
  start_time :: int
  request_count :: int
  error_count :: int
  active_connections :: "(string \<times> connection) list"
  last_activity :: int

text \<open>\<open>GatewayState.__init__\<close>, run at the instant \<open>now\<close>.\<close>

definition GatewayState_init :: "int \<Rightarrow> gateway_state" where
  "GatewayState_init now =
     \<lparr>child_servers = [], metrics = Map.empty, start_time = now, request_count = 0,
      error_count = 0, active_connections = [], last_activity = now\<rparr>"

text \<open>
  A statement runs on the state and either completes or raises; what it changed before
  raising stays changed, as in Python.
\<close>

type_synonym stmt = "gateway_state \<Rightarrow> py_error option \<times> gateway_state"

definition seq :: "stmt \<Rightarrow> stmt \<Rightarrow> stmt" where
  "seq a b s = (case a s of (None, s') \<Rightarrow> b s' | (Some e, s') \<Rightarrow> (Some e, s'))"

text \<open>\<open>self.metrics[name][key] = v\<close>\<close>

definition set_item :: "string \<Rightarrow> string \<Rightarrow> pyval \<Rightarrow> stmt" where
  "set_item name key v s =
     (case metrics s name of
        None \<Rightarrow> (Some KeyError, s)
      | Some r \<Rightarrow> (None, s\<lparr>metrics := (metrics s)(name \<mapsto> r(key \<mapsto> v))\<rparr>))"

text \<open>\<open>self.metrics[name][key] += 1\<close> and \<open>self.metrics[name][key] += latency\<close>\<close>

definition iadd_item_int :: "string \<Rightarrow> string \<Rightarrow> int \<Rightarrow> stmt" where
  "iadd_item_int name key n s =
     (case metrics s name of
        None \<Rightarrow> (Some KeyError, s)
      | Some r \<Rightarrow>
          (case r key of
             None \<Rightarrow> (Some KeyError, s)
           | Some v \<Rightarrow>
               (case iadd_int v n of
                  Inl e \<Rightarrow> (Some e, s)
                | Inr v' \<Rightarrow> (None, s\<lparr>metrics := (metrics s)(name \<mapsto> r(key \<mapsto> v'))\<rparr>))))"

definition iadd_item_float :: "string \<Rightarrow> string \<Rightarrow> real \<Rightarrow> stmt" where
  "iadd_item_float name key l s =
     (case metrics s name of
        None \<Rightarrow> (Some KeyError, s)
      | Some r \<Rightarrow>
          (case r key of
             None \<Rightarrow> (Some KeyError, s)
           | Some v \<Rightarrow>
               (case iadd_float v l of
                  Inl e \<Rightarrow> (Some e, s)
                | Inr v' \<Rightarrow> (None, s\<lparr>metrics := (metrics s)(name \<mapsto> r(key \<mapsto> v'))\<rparr>))))"

section \<open>GatewayState.update_metrics\<close>

text \<open>The record \<open>update_metrics\<close> creates for a name it has not seen.\<close>

definition new_metrics :: metrics_record where
  "new_metrics =
     [''request_count'' \<mapsto> PyInt 0, ''error_count'' \<mapsto> PyInt 0,
      ''total_latency'' \<mapsto> PyInt 0, ''last_check'' \<mapsto> PyNone,
      ''status'' \<mapsto> PyStr ''unknown'', ''connection_status'' \<mapsto> PyStr ''disconnected'']"

definition ensure_metrics :: "string \<Rightarrow> stmt" where
  "ensure_metrics server_name s =
     (None, if metrics s server_name = None
            then s\<lparr>metrics := (metrics s)(server_name \<mapsto> new_metrics)\<rparr> else s)"

definition bump_error_count :: stmt where
  "bump_error_count s = (None, s\<lparr>error_count := error_count s + 1\<rparr>)"

definition bump_request_count :: stmt where
  "bump_request_count s = (None, s\<lparr>request_count := request_count s + 1\<rparr>)"

text \<open>
  \<open>update_metrics(server_name, latency, status)\<close>, statement by statement; \<open>now\<close> is
  what \<open>utc_now()\<close> returns during the call.
\<close>

definition update_metrics :: "int \<Rightarrow> string \<Rightarrow> real \<Rightarrow> string \<Rightarrow> stmt" where
  "update_metrics now server_name latency status =
     seq (ensure_metrics server_name)
    (seq (iadd_item_int server_name ''request_count'' 1)
    (seq (iadd_item_float server_name ''total_latency'' latency)
    (seq (set_item server_name ''last_check'' (PyIso now))
    (seq (set_item server_name ''status'' (PyStr status))
    (seq (if status = ''healthy''
          then set_item server_name ''connection_status'' (PyStr ''connected'')
          else if status = ''error''
          then seq (set_item server_name ''connection_status'' (PyStr ''failed''))
              (seq (iadd_item_int server_name ''error_count'' 1) bump_error_count)
          else set_item server_name ''connection_status'' (PyStr ''unhealthy''))
     bump_request_count)))))"

text \<open>
  How a reader takes a field of a child's metrics (\<open>make_servers_table\<close> of the
  dashboard): \<open>state.metrics.get(name, {}).get(key, default)\<close>.
\<close>

definition metric :: "gateway_state \<Rightarrow> string \<Rightarrow> string \<Rightarrow> pyval \<Rightarrow> pyval" where
  "metric s name key dflt =
     (case metrics s name of
        None \<Rightarrow> dflt
      | Some r \<Rightarrow> (case r key of None \<Rightarrow> dflt | Some v \<Rightarrow> v))"

text \<open>A sequence of \<open>update_metrics\<close> calls, stopping at the first one that raises.\<close>

record observation =
  obs_time :: int
  obs_name :: string
  obs_latency :: real
  obs_status :: string

fun record_observations :: "observation list \<Rightarrow> stmt" where
  "record_observations [] s = (None, s)"
| "record_observations (c # cs) s =
     seq (update_metrics (obs_time c) (obs_name c) (obs_latency c) (obs_status c))
         (record_observations cs) s"


section \<open>Strings\<close>

text \<open>\<open>s.startswith(p)\<close> and \<open>s.replace(old, new)\<close> (every occurrence, left to right).\<close>

definition startswith :: "string \<Rightarrow> string \<Rightarrow> bool" where
  "startswith s p = (take (length p) s = p)"

fun str_replace :: "string \<Rightarrow> string \<Rightarrow> string \<Rightarrow> string" where
  "str_replace old new [] = (if old = [] then new else [])"
| "str_replace old new (c # cs) =
     (if old = [] then new @ c # str_replace old new cs
      else if take (length old) (c # cs) = old
      then new @ str_replace old new (drop (length old) (c # cs))
      else c # str_replace old new cs)"

text \<open>\<open>str(n)\<close> for a port number.\<close>

definition digit_char :: "nat \<Rightarrow> char" where
  "digit_char d = ''0123456789'' ! d"

fun str_nat :: "nat \<Rightarrow> string" where
  "str_nat n = (if n < 10 then [digit_char n] else str_nat (n div 10) @ [digit_char (n mod 10)])"

section \<open>GatewayState.check_server_connections\<close>

text \<open>
  What \<open>client.get(url, timeout=t)\<close> does: a response with a status code, a timeout, or
  another transport failure. The network is a parameter: the outcome of the request that
  the probe of a child (first argument) sends to a URL with a timeout in seconds.
\<close>

datatype http_result = HttpStatus int | HttpTimeout | HttpTransportError

type_synonym network = "string \<Rightarrow> string \<Rightarrow> real \<Rightarrow> http_result"

text \<open>\<open>info.get(key, default)\<close>\<close>

definition cfg_get :: "server_config \<Rightarrow> string \<Rightarrow> cfg_value \<Rightarrow> cfg_value" where
  "cfg_get info key dflt = (case map_of info key of None \<Rightarrow> dflt | Some v \<Rightarrow> v)"

text \<open>
  The URL \<open>check_proxy\<close> probes. A value that is not a string has no \<open>replace\<close> or
  \<open>startswith\<close>: AttributeError.
\<close>

definition check_proxy_url :: "server_config \<Rightarrow> py_error + string" where
  "check_proxy_url info =
     (case cfg_get info ''url'' (CStr []) of
        CObj _ \<Rightarrow> Inl AttributeError
      | CStr u \<Rightarrow>
          (case cfg_get info ''health_endpoint'' (CStr ''/health'') of
             CObj _ \<Rightarrow> Inl AttributeError
           | CStr health_endpoint \<Rightarrow>
               if \<not> startswith health_endpoint ''http''
               then Inr (str_replace ''/mcp'' [] u @ health_endpoint)
               else Inr health_endpoint))"

text \<open>\<open>if name not in self.metrics: self.metrics[name] = {}\<close>\<close>

definition ensure_empty :: "string \<Rightarrow> stmt" where
  "ensure_empty name s =
     (None, if metrics s name = None then s\<lparr>metrics := (metrics s)(name \<mapsto> Map.empty)\<rparr> else s)"

text \<open>\<open>try: body except: handler\<close>, the handler catching every exception.\<close>

definition try_except :: "stmt \<Rightarrow> stmt \<Rightarrow> stmt" where
  "try_except body handler s =
     (case body s of (None, s') \<Rightarrow> (None, s') | (Some e, s') \<Rightarrow> handler s')"

definition skip :: stmt where
  "skip s = (None, s)"

definition raise :: "py_error \<Rightarrow> stmt" where
  "raise e s = (Some e, s)"

definition check_proxy_try :: "network \<Rightarrow> int \<Rightarrow> string \<Rightarrow> server_config \<Rightarrow> stmt" where
  "check_proxy_try net now name info =
     (case check_proxy_url info of
        Inl e \<Rightarrow> raise e
      | Inr health_url \<Rightarrow>
          (case net name health_url 2 of
             HttpTimeout \<Rightarrow> raise TimeoutException
           | HttpTransportError \<Rightarrow> raise ConnectError
           | HttpStatus status_code \<Rightarrow>
               if status_code = 200
               then seq (ensure_empty name)
                   (seq (set_item name ''connection_status'' (PyStr ''connected''))
                        (set_item name ''last_check'' (PyIso now)))
               else seq (ensure_empty name)
                        (set_item name ''connection_status'' (PyStr ''unhealthy''))))"

definition check_proxy :: "network \<Rightarrow> int \<Rightarrow> string \<Rightarrow> server_config \<Rightarrow> stmt" where
  "check_proxy net now name info =
     (case map_of info ''type'' of
        None \<Rightarrow> raise KeyError
      | Some t \<Rightarrow>
          if t \<noteq> CStr ''proxy'' then skip
          else try_except (check_proxy_try net now name info)
                 (seq (ensure_empty name)
                      (set_item name ''connection_status'' (PyStr ''disconnected''))))"

text \<open>The record the loop over module children creates for a name without metrics.\<close>

definition module_metrics :: "int \<Rightarrow> metrics_record" where
  "module_metrics now =
     [''request_count'' \<mapsto> PyInt 0, ''error_count'' \<mapsto> PyInt 0,
      ''total_latency'' \<mapsto> PyInt 0, ''last_check'' \<mapsto> PyIso now,
      ''status'' \<mapsto> PyStr ''healthy'']"

definition ensure_module_metrics :: "int \<Rightarrow> string \<Rightarrow> stmt" where
  "ensure_module_metrics now name s =
     (None, if metrics s name = None
            then s\<lparr>metrics := (metrics s)(name \<mapsto> module_metrics now)\<rparr> else s)"

text \<open>The loop \<open>for name, info in self.child_servers.items()\<close> over the module children.\<close>

fun check_modules :: "int \<Rightarrow> (string \<times> server_config) list \<Rightarrow> stmt" where
  "check_modules now [] = skip"
| "check_modules now ((name, info) # rest) =
     (case map_of info ''type'' of
        None \<Rightarrow> raise KeyError
      | Some t \<Rightarrow>
          seq (if t = CStr ''module''
               then seq (ensure_module_metrics now name)
                        (set_item name ''connection_status'' (PyStr ''connected''))
               else skip)
              (check_modules now rest))"

text \<open>
  \<open>run_checks\<close>: the list comprehension keeps the proxy children (and raises on an entry
  without \<open>type\<close>), \<open>asyncio.gather\<close> runs one \<open>check_proxy\<close> for each of them. Each task
  writes the metrics of its own child only; the tasks are run here in the order of the list.
\<close>

fun proxy_children ::
  "(string \<times> server_config) list \<Rightarrow> py_error + (string \<times> server_config) list" where
  "proxy_children [] = Inr []"
| "proxy_children ((name, info) # rest) =
     (case map_of info ''type'' of
        None \<Rightarrow> Inl KeyError
      | Some t \<Rightarrow>
          (case proxy_children rest of
             Inl e \<Rightarrow> Inl e
           | Inr ps \<Rightarrow> Inr (if t = CStr ''proxy'' then (name, info) # ps else ps)))"

fun gather :: "network \<Rightarrow> int \<Rightarrow> (string \<times> server_config) list \<Rightarrow> stmt" where
  "gather net now [] = skip"
| "gather net now ((name, info) # tasks) =
     seq (check_proxy net now name info) (gather net now tasks)"

definition run_checks :: "network \<Rightarrow> int \<Rightarrow> stmt" where
  "run_checks net now s =
     (case proxy_children (child_servers s) of
        Inl e \<Rightarrow> (Some e, s)
      | Inr tasks \<Rightarrow> gather net now tasks s)"

text \<open>
  \<open>check_server_connections\<close> ends in two branches. Without a running event loop
  (\<open>loop_running = False\<close>: \<open>get_running_loop\<close> raises RuntimeError, as in the thread
  that the dashboard starts every five seconds) \<open>asyncio.run(run_checks())\<close> runs the
  probes before the call returns. With a running event loop (a call from a coroutine, as
  the one at startup of the dashboard's server) \<open>asyncio.create_task(run_checks())\<close> only
  schedules them: the call returns after the loop over the module children, and the
  event loop runs the task \<open>run_checks\<close> later, on the state and the network of that
  time.
\<close>

definition check_server_connections :: "bool \<Rightarrow> network \<Rightarrow> int \<Rightarrow> stmt" where
  "check_server_connections loop_running net now s =
     seq (check_modules now (child_servers s))
         (if loop_running then skip else run_checks net now) s"

section \<open>The health and status routes\<close>

text \<open>
  A \<open>JSONResponse\<close> is kept as its status code; the items of its body are not
  modelled.
\<close>

record response =
  status_code :: int

text \<open>A handler returns a response or raises, and leaves a state.\<close>

type_synonym 'a handler = "gateway_state \<Rightarrow> (py_error + 'a) \<times> gateway_state"

text \<open>
  The URL \<open>server_health_check\<close> probes: the health endpoint first, and the child's
  \<open>url\<close> (an indexing, KeyError when missing) only for a relative endpoint.
\<close>

definition health_check_url :: "server_config \<Rightarrow> py_error + string" where
  "health_check_url server_info =
     (case cfg_get server_info ''health_endpoint'' (CStr ''/health'') of
        CObj _ \<Rightarrow> Inl AttributeError
      | CStr health_url \<Rightarrow>
          if \<not> startswith health_url ''http''
          then (case map_of server_info ''url'' of
                  None \<Rightarrow> Inl KeyError
                | Some (CObj _) \<Rightarrow> Inl AttributeError
                | Some (CStr u) \<Rightarrow> Inr (str_replace ''/mcp'' [] u @ health_url))
          else Inr health_url)"

text \<open>
  The \<open>try\<close> block of the proxy branch. \<open>latency\<close> is the elapsed time in milliseconds
  that the handler measures with \<open>time.time()\<close>.
\<close>

definition health_check_try ::
  "network \<Rightarrow> int \<Rightarrow> real \<Rightarrow> string \<Rightarrow> server_config \<Rightarrow> response handler" where
  "health_check_try net now latency server_name server_info s =
     (case health_check_url server_info of
        Inl e \<Rightarrow> (Inl e, s)
      | Inr health_url \<Rightarrow>
          (case net server_name health_url 5 of
             HttpTimeout \<Rightarrow> (Inl TimeoutException, s)
           | HttpTransportError \<Rightarrow> (Inl ConnectError, s)
           | HttpStatus code \<Rightarrow>
               (let status = (if code = 200 then ''healthy'' else ''unhealthy'') in
                case update_metrics now server_name latency status s of
                  (Some e, s') \<Rightarrow> (Inl e, s')
                | (None, s') \<Rightarrow>
                    (Inr \<lparr>status_code = 200\<rparr>, s'))))"

text \<open>The \<open>except Exception as e\<close> block of the proxy branch.\<close>

definition health_check_except ::
  "int \<Rightarrow> real \<Rightarrow> string \<Rightarrow> py_error \<Rightarrow> response handler" where
  "health_check_except now latency server_name e s =
     (case update_metrics now server_name latency ''error'' s of
        (Some e', s') \<Rightarrow> (Inl e', s')
      | (None, s') \<Rightarrow>
          (Inr \<lparr>status_code = 503\<rparr>, s'))"

text \<open>\<open>GET /health/{server_name}\<close>\<close>

definition server_health_check ::
  "network \<Rightarrow> int \<Rightarrow> real \<Rightarrow> string \<Rightarrow> response handler" where
  "server_health_check net now latency server_name s =
     (case map_of (child_servers s) server_name of
        None \<Rightarrow>
          (Inr \<lparr>status_code = 404\<rparr>, s)
      | Some server_info \<Rightarrow>
          (case map_of server_info ''type'' of
             None \<Rightarrow> (Inl KeyError, s)
           | Some t \<Rightarrow>
               if t = CStr ''proxy''
               then (case health_check_try net now latency server_name server_info s of
                       (Inr resp, s') \<Rightarrow> (Inr resp, s')
                     | (Inl e, s') \<Rightarrow> health_check_except now latency server_name e s')
               else (case update_metrics now server_name latency ''healthy'' s of
                       (Some e, s') \<Rightarrow> (Inl e, s')
                     | (None, s') \<Rightarrow>
                         (Inr \<lparr>status_code = 200\<rparr>, s'))))"

text \<open>
  \<open>round(x, 2)\<close>: Python rounds the exact value of the float to two decimals, a tie
  going to the even neighbour; here on the idealised floats.
\<close>

definition round_half_even :: "real \<Rightarrow> int" where
  "round_half_even y =
     (let f = \<lfloor>y\<rfloor> in
      if y - of_int f < 1 / 2 then f
      else if y - of_int f > 1 / 2 then f + 1
      else if even f then f else f + 1)"

definition round2 :: "real \<Rightarrow> real" where
  "round2 x = of_int (round_half_even (x * 100)) / 100"

text \<open>\<open>x > 0\<close> and \<open>x / y\<close> on Python values.\<close>

fun py_positive :: "pyval \<Rightarrow> py_error + bool" where
  "py_positive (PyInt a) = Inr (a > 0)"
| "py_positive (PyFloat a) = Inr (a > 0)"
| "py_positive _ = Inl TypeError"

fun py_real :: "pyval \<Rightarrow> real option" where
  "py_real (PyInt a) = Some (of_int a)"
| "py_real (PyFloat a) = Some a"
| "py_real _ = None"

definition py_truediv :: "pyval \<Rightarrow> pyval \<Rightarrow> py_error + real" where
  "py_truediv x y =
     (case (py_real x, py_real y) of
        (Some a, Some b) \<Rightarrow> if b = 0 then Inl ZeroDivisionError else Inr (a / b)
      | _ \<Rightarrow> Inl TypeError)"

text \<open>
  One row of \<open>GET /status\<close>. The row's \<open>metrics\<close> is the child's own record (not a
  copy), so the average latency is written into the state's record.
\<close>

record server_status =
  ss_name :: string
  ss_type :: cfg_value
  ss_prefix :: cfg_value
  ss_url :: cfg_value
  ss_metrics :: metrics_record

definition status_row :: "string \<Rightarrow> server_config \<Rightarrow> server_status handler" where
  "status_row name info s =
     (case map_of info ''type'' of
        None \<Rightarrow> (Inl KeyError, s)
      | Some t \<Rightarrow>
          (let row = \<lparr>ss_name = name, ss_type = t, ss_prefix = cfg_get info ''prefix'' (CStr []),
                      ss_url = cfg_get info ''url'' (CStr []), ss_metrics = Map.empty\<rparr>
           in case metrics s name of
                None \<Rightarrow> (Inr row, s)
              | Some r \<Rightarrow>
                  (case r ''request_count'' of
                     None \<Rightarrow> (Inl KeyError, s)
                   | Some rc \<Rightarrow>
                       (case py_positive rc of
                          Inl e \<Rightarrow> (Inl e, s)
                        | Inr False \<Rightarrow> (Inr (row\<lparr>ss_metrics := r\<rparr>), s)
                        | Inr True \<Rightarrow>
                            (case r ''total_latency'' of
                               None \<Rightarrow> (Inl KeyError, s)
                             | Some total_latency \<Rightarrow>
                                 (case py_truediv total_latency rc of
                                    Inl e \<Rightarrow> (Inl e, s)
                                  | Inr avg_latency \<Rightarrow>
                                      (let r' = r(''average_latency_ms'' \<mapsto>
                                                    PyFloat (round2 avg_latency))
                                       in (Inr (row\<lparr>ss_metrics := r'\<rparr>),
                                           s\<lparr>metrics := (metrics s)(name \<mapsto> r')\<rparr>))))))))"

fun status_rows :: "(string \<times> server_config) list \<Rightarrow> server_status list handler" where
  "status_rows [] s = (Inr [], s)"
| "status_rows ((name, info) # rest) s =
     (case status_row name info s of
        (Inl e, s') \<Rightarrow> (Inl e, s')
      | (Inr row, s') \<Rightarrow>
          (case status_rows rest s' of
             (Inl e, s'') \<Rightarrow> (Inl e, s'')
           | (Inr rows, s'') \<Rightarrow> (Inr (row # rows), s'')))"

text \<open>\<open>GET /status\<close>\<close>

record status_response =
  uptime_seconds :: real
  total_requests :: int
  total_errors :: int
  servers :: "server_status list"
  timestamp :: int

definition status :: "int \<Rightarrow> status_response handler" where
  "status now s =
     (case status_rows (child_servers s) s of
        (Inl e, s') \<Rightarrow> (Inl e, s')
      | (Inr rows, s') \<Rightarrow>
          (Inr \<lparr>uptime_seconds = of_int (now - start_time s') / 1000000,
                total_requests = request_count s', total_errors = error_count s',
                servers = rows, timestamp = now\<rparr>, s'))"


section \<open>load_child_servers\<close>

text \<open>
  Beside \<open>state\<close>, loading changes two globals of the process: the servers mounted on
  \<open>gateway\<close> (with their prefixes, in mounting order) and \<open>os.environ\<close>.
\<close>

record proxy_client =
  client_url :: cfg_value
  client_headers :: "(string \<times> string) list"

datatype mounted = ProxyServer proxy_client cfg_value | LocalServer nat

record process =
  state :: gateway_state
  gateway :: "(mounted \<times> cfg_value) list"
  os_environ :: "string \<rightharpoonup> string"

type_synonym pstmt = "process \<Rightarrow> py_error option \<times> process"

text \<open>
  The libraries and the file system are parameters. \<open>proxy_client_ok\<close>, \<open>as_proxy_ok\<close>
  and \<open>mount_ok\<close> say whether \<open>ProxyClient(url)\<close>, \<open>FastMCP.as_proxy(client, name=name)\<close>
  and \<open>gateway.mount(server, prefix=prefix)\<close> return (rather than raise).
  \<open>import_module\<close> is the outcome of resolving, importing and initialising a module
  child under the environment set so far: the path does not exist, no import strategy
  gave a module, the import by name failed, the module has neither the initializer nor
  \<open>mcp\<close> nor \<open>server\<close>, something raised, or the server to mount.
\<close>

datatype module_outcome =
  PathMissing | NotImported | ImportFailed | NoEntryPoint | Raised | Handle nat

record world =
  proxy_client_ok :: "cfg_value \<Rightarrow> bool"
  as_proxy_ok :: "proxy_client \<Rightarrow> cfg_value \<Rightarrow> bool"
  mount_ok :: "mounted \<Rightarrow> cfg_value \<Rightarrow> bool"
  import_module :: "server_config \<Rightarrow> (string \<rightharpoonup> string) \<Rightarrow> module_outcome"

text \<open>
  The \<open>headers\<close> dictionary of a proxy entry. Indexing a string with \<open>"type"\<close> is a
  TypeError; \<open>os.environ.get(token, token)\<close> reads the token through the environment.
\<close>

definition auth_headers ::
  "(string \<rightharpoonup> string) \<Rightarrow> server_config \<Rightarrow> py_error + (string \<times> string) list" where
  "auth_headers env server_config =
     (case map_of server_config ''auth'' of
        None \<Rightarrow> Inr []
      | Some (CStr _) \<Rightarrow> Inl TypeError
      | Some (CObj auth) \<Rightarrow>
          (case map_of auth ''type'' of
             None \<Rightarrow> Inl KeyError
           | Some ty \<Rightarrow>
               if ty = ''bearer''
               then (case map_of auth ''token'' of
                       None \<Rightarrow> Inl KeyError
                     | Some tok \<Rightarrow>
                         (let token = (case env tok of None \<Rightarrow> tok | Some v \<Rightarrow> v)
                          in Inr [(''Authorization'', ''Bearer '' @ token)]))
               else Inr []))"

text \<open>
  The \<open>try\<close> block of the proxy branch: \<open>None\<close> when one of the three calls raises
  (the \<open>except\<close> block logs and continues with the next entry). The client is built
  from the URL alone.
\<close>

definition mount_proxy ::
  "world \<Rightarrow> cfg_value \<Rightarrow> cfg_value \<Rightarrow> cfg_value \<Rightarrow> process \<Rightarrow> process option" where
  "mount_proxy w url name prefix p =
     (let proxy_client = \<lparr>client_url = url, client_headers = []\<rparr> in
      if \<not> proxy_client_ok w url then None
      else if \<not> as_proxy_ok w proxy_client name then None
      else (let proxy_server = ProxyServer proxy_client name in
            if \<not> mount_ok w proxy_server prefix then None
            else Some (p\<lparr>gateway := gateway p @ [(proxy_server, prefix)]\<rparr>)))"

text \<open>\<open>for envvar_name, envvar_value in module_envvars.items(): if envvar_name: ...\<close>\<close>

fun set_envvars :: "(string \<times> string) list \<Rightarrow> (string \<rightharpoonup> string) \<Rightarrow> (string \<rightharpoonup> string)" where
  "set_envvars [] env = env"
| "set_envvars ((envvar_name, envvar_value) # rest) env =
     set_envvars rest (if envvar_name \<noteq> [] then env(envvar_name \<mapsto> envvar_value) else env)"

text \<open>
  The \<open>try\<close> block of the module branch: whether the module was mounted, and the
  process it leaves (every other exit of the block continues with the next entry).
\<close>

definition mount_module ::
  "world \<Rightarrow> server_config \<Rightarrow> cfg_value \<Rightarrow> process \<Rightarrow> bool \<times> process" where
  "mount_module w server_config prefix p =
     (case cfg_get server_config ''module_envvars'' (CObj []) of
        CStr _ \<Rightarrow> (False, p)
      | CObj module_envvars \<Rightarrow>
          (let p1 = p\<lparr>os_environ := set_envvars module_envvars (os_environ p)\<rparr> in
           case import_module w server_config (os_environ p1) of
             Handle local_server \<Rightarrow>
               if mount_ok w (LocalServer local_server) prefix
               then (True, p1\<lparr>gateway := gateway p1 @ [(LocalServer local_server, prefix)]\<rparr>)
               else (False, p1)
           | _ \<Rightarrow> (False, p1)))"

text \<open>\<open>state.child_servers[name] = server_config\<close>; a dictionary is not hashable.\<close>

definition record_child :: "cfg_value \<Rightarrow> server_config \<Rightarrow> pstmt" where
  "record_child name server_config p =
     (case name of
        CObj _ \<Rightarrow> (Some TypeError, p)
      | CStr n \<Rightarrow>
          (None, p\<lparr>state := (state p)\<lparr>child_servers :=
                     AList.update n server_config (child_servers (state p))\<rparr>\<rparr>))"

text \<open>
  The body of the loop over the entries. \<open>Some e\<close>: the exception \<open>e\<close> leaves the body;
  \<open>None\<close>: the body completed or ran \<open>continue\<close>.
\<close>

definition load_entry :: "world \<Rightarrow> server_config \<Rightarrow> pstmt" where
  "load_entry w server_config p =
     (case map_of server_config ''name'' of
        None \<Rightarrow> (Some KeyError, p)
      | Some name \<Rightarrow>
          (case map_of server_config ''type'' of
             None \<Rightarrow> (Some KeyError, p)
           | Some server_type \<Rightarrow>
               (let prefix = cfg_get server_config ''prefix'' (CStr []) in
                if server_type = CStr ''proxy''
                then (case map_of server_config ''url'' of
                        None \<Rightarrow> (Some KeyError, p)
                      | Some url \<Rightarrow>
                          (case auth_headers (os_environ p) server_config of
                             Inl e \<Rightarrow> (Some e, p)
                           | Inr headers \<Rightarrow>
                               (case mount_proxy w url name prefix p of
                                  None \<Rightarrow> (None, p)
                                | Some p' \<Rightarrow> record_child name server_config p')))
                else if server_type = CStr ''module''
                then (case mount_module w server_config prefix p of
                        (False, p') \<Rightarrow> (None, p')
                      | (True, p') \<Rightarrow> record_child name server_config p')
                else record_child name server_config p)))"

text \<open>
  The loop stands inside one \<open>try\<close>: an exception that leaves the body is logged by the
  \<open>except\<close> block after the loop, and the function returns.
\<close>

fun load_entries :: "world \<Rightarrow> server_config list \<Rightarrow> process \<Rightarrow> process" where
  "load_entries w [] p = p"
| "load_entries w (server_config # rest) p =
     (case load_entry w server_config p of
        (Some e, p') \<Rightarrow> p'
      | (None, p') \<Rightarrow> load_entries w rest p')"

text \<open>
  The configuration file: missing, not JSON, or the list under \<open>child_servers\<close> (empty
  when the key is absent).
\<close>

datatype config_file = NoFile | NotJSON | Config "server_config list"

fun load_child_servers :: "world \<Rightarrow> config_file \<Rightarrow> process \<Rightarrow> process" where
  "load_child_servers w NoFile p = p"
| "load_child_servers w NotJSON p = p"
| "load_child_servers w (Config entries) p = load_entries w entries p"

definition process_init :: "int \<Rightarrow> process" where
  "process_init now = \<lparr>state = GatewayState_init now, gateway = [], os_environ = Map.empty\<rparr>"

section \<open>LoggingMiddleware\<close>

record scope =
  scope_type :: string
  scope_path :: string
  scope_method :: string
  scope_client :: "(string \<times> nat) option"

text \<open>\<open>client = scope.get("client", ("unknown", 0))\<close>, then \<open>f"{client[0]}:{client[1]}"\<close>\<close>

definition client_addr :: "scope \<Rightarrow> string" where
  "client_addr sc =
     (case scope_client sc of
        None \<Rightarrow> ''unknown'' @ '':'' @ str_nat 0
      | Some (host, port) \<Rightarrow> host @ '':'' @ str_nat port)"

text \<open>
  \<open>LoggingMiddleware.__call__\<close> up to the call of the wrapped application; \<open>now\<close> is
  what \<open>utc_now()\<close> returns there.
\<close>

definition LoggingMiddleware_call :: "int \<Rightarrow> scope \<Rightarrow> gateway_state \<Rightarrow> gateway_state" where
  "LoggingMiddleware_call now sc s =
     (if scope_type sc = ''http''
      then (if scope_path sc = ''/mcp'' \<and> scope_method sc = ''POST''
            then s\<lparr>last_activity := now,
                   active_connections :=
                     AList.update (client_addr sc)
                       \<lparr>connected_at = now, last_seen = now,
                        requests = (case map_of (active_connections s) (client_addr sc) of
                                      None \<Rightarrow> 0
                                    | Some c \<Rightarrow> requests c) + 1\<rparr>
                       (active_connections s)\<rparr>
            else s)
      else s)"

text \<open>\<open>send_wrapper\<close> on the message \<open>http.response.start\<close>.\<close>

definition send_wrapper :: "int \<Rightarrow> scope \<Rightarrow> gateway_state \<Rightarrow> gateway_state" where
  "send_wrapper now sc s =
     (case map_of (active_connections s) (client_addr sc) of
        None \<Rightarrow> s
      | Some c \<Rightarrow>
          s\<lparr>active_connections :=
               AList.update (client_addr sc) (c\<lparr>last_seen := now\<rparr>) (active_connections s)\<rparr>)"

section \<open>The dashboard\<close>

text \<open>\<open>make_header\<close>: the number of clients the header shows.\<close>

definition make_header :: "gateway_state \<Rightarrow> nat" where
  "make_header s = length (active_connections s)"

text \<open>
  \<open>make_info_panel\<close>, its part on clients: the loop over \<open>list(keys())\<close> deletes a
  connection when \<open>(current_time - last_seen).total_seconds() > 30\<close>, then the panel
  counts what is left. Instants are microseconds.
\<close>

fun clean_up :: "int \<Rightarrow> string list \<Rightarrow> (string \<times> connection) list \<Rightarrow> (string \<times> connection) list" where
  "clean_up current_time [] conns = conns"
| "clean_up current_time (addr # rest) conns =
     clean_up current_time rest
       (case map_of conns addr of
          None \<Rightarrow> conns
        | Some c \<Rightarrow>
            if current_time - last_seen c > 30 * 1000000 then AList.delete addr conns
            else conns)"

definition make_info_panel :: "int \<Rightarrow> gateway_state \<Rightarrow> nat \<times> gateway_state" where
  "make_info_panel current_time s =
     (let s' = s\<lparr>active_connections :=
                   clean_up current_time (map fst (active_connections s)) (active_connections s)\<rparr>
      in (length (active_connections s'), s'))"

text \<open>
  \<open>update_display\<close>: one refresh builds the header first and the information panel
  after it. The result is the two client counts of the refresh.
\<close>

definition update_display :: "int \<Rightarrow> gateway_state \<Rightarrow> (nat \<times> nat) \<times> gateway_state" where
  "update_display now s =
     (let header_clients = make_header s;
          (panel_clients, s') = make_info_panel now s
      in ((header_clients, panel_clients), s'))"


section \<open>Well-formed metrics\<close>

text \<open>
  A metrics record holds its counters when \<open>request_count\<close> and \<open>error_count\<close> are
  integers and \<open>total_latency\<close> is a number. \<open>observed\<close> is the record that one
  observation makes of such a record.
\<close>

fun is_int :: "pyval option \<Rightarrow> bool" where
  "is_int (Some (PyInt a)) = True"
| "is_int _ = False"

fun is_number :: "pyval option \<Rightarrow> bool" where
  "is_number (Some (PyInt a)) = True"
| "is_number (Some (PyFloat a)) = True"
| "is_number _ = False"

definition has_counters :: "metrics_record \<Rightarrow> bool" where
  "has_counters r =
     (is_int (r ''request_count'') \<and> is_int (r ''error_count'') \<and>
      is_number (r ''total_latency''))"

definition counters_ok :: "gateway_state \<Rightarrow> bool" where
  "counters_ok s = (\<forall>name r. metrics s name = Some r \<longrightarrow> has_counters r)"

definition observed :: "int \<Rightarrow> real \<Rightarrow> string \<Rightarrow> metrics_record \<Rightarrow> metrics_record" where
  "observed now l st r =
     (let r1 = r(''request_count'' \<mapsto>
                   (case r ''request_count'' of Some (PyInt a) \<Rightarrow> PyInt (a + 1) | _ \<Rightarrow> PyNone));
          r2 = r1(''total_latency'' \<mapsto>
                   (case r ''total_latency'' of
                      Some (PyInt a) \<Rightarrow> PyFloat (of_int a + l)
                    | Some (PyFloat a) \<Rightarrow> PyFloat (a + l)
                    | _ \<Rightarrow> PyNone));
          r3 = r2(''last_check'' \<mapsto> PyIso now, ''status'' \<mapsto> PyStr st)
      in if st = ''healthy'' then r3(''connection_status'' \<mapsto> PyStr ''connected'')
         else if st = ''error''
         then r3(''connection_status'' \<mapsto> PyStr ''failed'',
                 ''error_count'' \<mapsto>
                   (case r ''error_count'' of Some (PyInt e) \<Rightarrow> PyInt (e + 1) | _ \<Rightarrow> PyNone))
         else r3(''connection_status'' \<mapsto> PyStr ''unhealthy''))"

text \<open>
  What the dictionary \<open>child_servers\<close> satisfies once \<open>load_child_servers\<close> has filled
  it: the names are distinct (they are the keys) and every descriptor has a \<open>type\<close>.
\<close>

definition children_ok :: "gateway_state \<Rightarrow> bool" where
  "children_ok s =
     (distinct (map fst (child_servers s)) \<and>
      list_all (\<lambda>(name, info). map_of info ''type'' \<noteq> None) (child_servers s))"


section \<open>Example configurations and states\<close>

definition api_entry :: server_config where
  "api_entry =
     [(''name'', CStr ''api''), (''type'', CStr ''proxy''), (''url'', CStr ''http://h:9/mcp'')]"





definition secured_entry :: server_config where
  "secured_entry =
     [(''name'', CStr ''api''), (''type'', CStr ''proxy''), (''prefix'', CStr ''api''),
      (''url'', CStr ''http://h:9/mcp''),
      (''auth'', CObj [(''type'', ''bearer''), (''token'', ''API_TOKEN'')])]"

text \<open>A world where every library call returns, and one where no proxy client can be built.\<close>

definition all_ok :: world where
  "all_ok = \<lparr>proxy_client_ok = (\<lambda>url. True), as_proxy_ok = (\<lambda>c n. True),
             mount_ok = (\<lambda>m p. True), import_module = (\<lambda>c env. Handle 0)\<rparr>"


text \<open>A gateway with the one proxy child \<open>api\<close> and no metrics yet, and one with four children.\<close>

definition one_proxy :: gateway_state where
  "one_proxy = (GatewayState_init 0)\<lparr>child_servers := [(''api'', api_entry)]\<rparr>"



text \<open>The state that a probe answered with 200 leaves of \<open>one_proxy\<close>.\<close>

definition probed :: gateway_state where
  "probed = one_proxy\<lparr>metrics := [''api'' \<mapsto>
     [''connection_status'' \<mapsto> PyStr ''connected'', ''last_check'' \<mapsto> PyIso 1]]\<rparr>"

text \<open>A \<open>POST /mcp\<close> from one client, and a state whose only client was last seen at 0.\<close>

definition post_mcp :: scope where
  "post_mcp = \<lparr>scope_type = ''http'', scope_path = ''/mcp'', scope_method = ''POST'',
               scope_client = Some (''10.0.0.1'', 4242)\<rparr>"

definition idle_client :: gateway_state where
  "idle_client = (GatewayState_init 0)\<lparr>active_connections :=
     [(''10.0.0.1:4242'', \<lparr>connected_at = 0, last_seen = 0, requests = 1\<rparr>)]\<rparr>"

definition three_calls :: "observation list" where
  "three_calls =
     [\<lparr>obs_time = 1, obs_name = ''api'', obs_latency = 12, obs_status = ''healthy''\<rparr>,
      \<lparr>obs_time = 2, obs_name = ''api'', obs_latency = 7, obs_status = ''error''\<rparr>,
      \<lparr>obs_time = 3, obs_name = ''old'', obs_latency = 3, obs_status = ''unhealthy''\<rparr>]"

declare str_nat.simps [simp del]

section \<open>What one observation does\<close>

lemma is_int_iff: "is_int x \<longleftrightarrow> (\<exists>a. x = Some (PyInt a))"
  by (cases x rule: is_int.cases) auto

lemma is_number_iff: "is_number x \<longleftrightarrow> (\<exists>a. x = Some (PyInt a)) \<or> (\<exists>a. x = Some (PyFloat a))"
  by (cases x rule: is_number.cases) auto

lemma update_metrics_present:
  assumes "metrics s n = Some r" and "has_counters r"
  shows "update_metrics now n l st s =
    (None, s\<lparr>metrics := (metrics s)(n \<mapsto> observed now l st r),
            error_count := error_count s + (if st = ''error'' then 1 else 0),
            request_count := request_count s + 1\<rparr>)"
  using assms
  by (auto simp: has_counters_def is_int_iff is_number_iff update_metrics_def seq_def
      ensure_metrics_def iadd_item_int_def iadd_item_float_def set_item_def
      bump_error_count_def bump_request_count_def observed_def Let_def)

lemma has_counters_new: "has_counters new_metrics"
  by (simp add: has_counters_def new_metrics_def)

lemma update_metrics_absent:
  assumes "metrics s n = None"
  shows "update_metrics now n l st s =
    (None, s\<lparr>metrics := (metrics s)(n \<mapsto> observed now l st new_metrics),
            error_count := error_count s + (if st = ''error'' then 1 else 0),
            request_count := request_count s + 1\<rparr>)"
  using assms
  by (auto simp: update_metrics_def seq_def ensure_metrics_def iadd_item_int_def
      iadd_item_float_def set_item_def bump_error_count_def bump_request_count_def
      observed_def Let_def new_metrics_def)

lemma observed_request_count:
  "r ''request_count'' = Some (PyInt a) \<Longrightarrow>
   observed now l st r ''request_count'' = Some (PyInt (a + 1))"
  by (simp add: observed_def Let_def)

lemma observed_error_count:
  "r ''error_count'' = Some (PyInt e) \<Longrightarrow>
   observed now l st r ''error_count'' = Some (PyInt (e + (if st = ''error'' then 1 else 0)))"
  by (simp add: observed_def Let_def)

lemma observed_has_counters: "has_counters r \<Longrightarrow> has_counters (observed now l st r)"
  by (auto simp: has_counters_def is_int_iff is_number_iff observed_def Let_def)

lemma observed_connection_status:
  "observed now l st r ''connection_status'' =
     Some (PyStr (if st = ''healthy'' then ''connected''
                  else if st = ''error'' then ''failed'' else ''unhealthy''))"
  by (simp add: observed_def Let_def)

lemma observed_status: "observed now l st r ''status'' = Some (PyStr st)"
  by (simp add: observed_def Let_def)

lemma update_metrics_step:
  assumes "counters_ok s"
  shows "\<exists>s'. update_metrics now n l st s = (None, s') \<and> counters_ok s' \<and>
     request_count s' = request_count s + 1 \<and>
     error_count s' = error_count s + (if st = ''error'' then 1 else 0) \<and>
     (\<forall>m a. metric s m ''request_count'' (PyInt 0) = PyInt a \<longrightarrow>
        metric s' m ''request_count'' (PyInt 0) = PyInt (a + (if m = n then 1 else 0))) \<and>
     (\<forall>m a. metric s m ''error_count'' (PyInt 0) = PyInt a \<longrightarrow>
        metric s' m ''error_count'' (PyInt 0) =
          PyInt (a + (if m = n \<and> st = ''error'' then 1 else 0)))"
proof (cases "metrics s n")
  case None
  have nm: "new_metrics ''request_count'' = Some (PyInt 0)"
    "new_metrics ''error_count'' = Some (PyInt 0)"
    by (simp_all add: new_metrics_def)
  show ?thesis
    unfolding update_metrics_absent[OF None]
    using assms None
      observed_request_count[where r = new_metrics and a = 0, OF nm(1), of now l st]
      observed_error_count[where r = new_metrics and e = 0, OF nm(2), of now l st]
      observed_has_counters[OF has_counters_new, of now l st]
    by (auto simp: counters_ok_def metric_def split: option.splits)
next
  case (Some r)
  with assms have hc: "has_counters r"
    unfolding counters_ok_def by blast
  then obtain a e where r: "r ''request_count'' = Some (PyInt a)"
    "r ''error_count'' = Some (PyInt e)"
    by (auto simp: has_counters_def is_int_iff)
  show ?thesis
    unfolding update_metrics_present[OF Some hc]
    using assms Some r
      observed_request_count[where r = r and a = a, OF r(1), of now l st]
      observed_error_count[where r = r and e = e, OF r(2), of now l st]
      observed_has_counters[OF hc, of now l st]
    by (auto simp: counters_ok_def metric_def split: option.splits)
qed

lemma record_observations_run:
  assumes "counters_ok s"
  shows "\<exists>s'. record_observations calls s = (None, s') \<and> counters_ok s' \<and>
     request_count s' = request_count s + int (length calls) \<and>
     error_count s' = error_count s + int (length (filter (\<lambda>c. obs_status c = ''error'') calls)) \<and>
     (\<forall>m a. metric s m ''request_count'' (PyInt 0) = PyInt a \<longrightarrow>
        metric s' m ''request_count'' (PyInt 0) =
          PyInt (a + int (length (filter (\<lambda>c. obs_name c = m) calls)))) \<and>
     (\<forall>m a. metric s m ''error_count'' (PyInt 0) = PyInt a \<longrightarrow>
        metric s' m ''error_count'' (PyInt 0) =
          PyInt (a + int (length (filter (\<lambda>c. obs_name c = m \<and> obs_status c = ''error'') calls))))"
  using assms
proof (induction calls arbitrary: s)
  case Nil
  then show ?case by simp
next
  case (Cons c cs)
  from update_metrics_step[OF Cons.prems, of "obs_time c" "obs_name c" "obs_latency c" "obs_status c"]
  obtain s1 where s1: "update_metrics (obs_time c) (obs_name c) (obs_latency c) (obs_status c) s = (None, s1)"
    "counters_ok s1" "request_count s1 = request_count s + 1"
    "error_count s1 = error_count s + (if obs_status c = ''error'' then 1 else 0)"
    and rq: "\<And>m a. metric s m ''request_count'' (PyInt 0) = PyInt a \<Longrightarrow>
        metric s1 m ''request_count'' (PyInt 0) = PyInt (a + (if m = obs_name c then 1 else 0))"
    and er: "\<And>m a. metric s m ''error_count'' (PyInt 0) = PyInt a \<Longrightarrow>
        metric s1 m ''error_count'' (PyInt 0) =
          PyInt (a + (if m = obs_name c \<and> obs_status c = ''error'' then 1 else 0))"
    by blast
  from Cons.IH[OF s1(2)] obtain s2 where s2: "record_observations cs s1 = (None, s2)"
    "counters_ok s2" "request_count s2 = request_count s1 + int (length cs)"
    "error_count s2 = error_count s1 + int (length (filter (\<lambda>c. obs_status c = ''error'') cs))"
    and rq2: "\<And>m a. metric s1 m ''request_count'' (PyInt 0) = PyInt a \<Longrightarrow>
        metric s2 m ''request_count'' (PyInt 0) =
          PyInt (a + int (length (filter (\<lambda>c. obs_name c = m) cs)))"
    and er2: "\<And>m a. metric s1 m ''error_count'' (PyInt 0) = PyInt a \<Longrightarrow>
        metric s2 m ''error_count'' (PyInt 0) =
          PyInt (a + int (length (filter (\<lambda>c. obs_name c = m \<and> obs_status c = ''error'') cs)))"
    by blast
  have run: "record_observations (c # cs) s = (None, s2)"
    using s1(1) s2(1) by (simp add: seq_def)
  have "metric s2 m ''request_count'' (PyInt 0) =
          PyInt (a + int (length (filter (\<lambda>c. obs_name c = m) (c # cs))))"
    if "metric s m ''request_count'' (PyInt 0) = PyInt a" for m a
    using rq2[OF rq[OF that]] by auto
  moreover have "metric s2 m ''error_count'' (PyInt 0) =
          PyInt (a + int (length (filter (\<lambda>c. obs_name c = m \<and> obs_status c = ''error'') (c # cs))))"
    if "metric s m ''error_count'' (PyInt 0) = PyInt a" for m a
    using er2[OF er[OF that]] by auto
  ultimately show ?case
    using run s2(2,3,4) s1(3,4) by auto
qed

lemma counters_ok_init: "counters_ok (GatewayState_init t0)"
  by (simp add: counters_ok_def GatewayState_init_def)

section \<open>Counting observations\<close>

text \<open>
  C1. Starting from the initial state, every finite sequence of \<open>update_metrics\<close> calls
  completes without raising, and afterwards, for every child name: the child's
  \<open>request_count\<close> is the number of calls naming it, its \<open>error_count\<close> is the number of
  those calls with status \<open>error\<close> (so it is at most the request count), and the global
  request counter is the number of all calls.
\<close>

theorem C1_update_metrics_counts:
  "fst (record_observations calls (GatewayState_init t0)) = None \<and>
   metric (snd (record_observations calls (GatewayState_init t0))) name ''request_count'' (PyInt 0) =
     PyInt (int (length (filter (\<lambda>c. obs_name c = name) calls))) \<and>
   metric (snd (record_observations calls (GatewayState_init t0))) name ''error_count'' (PyInt 0) =
     PyInt (int (length (filter (\<lambda>c. obs_name c = name \<and> obs_status c = ''error'') calls))) \<and>
   length (filter (\<lambda>c. obs_name c = name \<and> obs_status c = ''error'') calls) \<le>
     length (filter (\<lambda>c. obs_name c = name) calls) \<and>
   request_count (snd (record_observations calls (GatewayState_init t0))) = int (length calls)"
proof -
  have m0: "metric (GatewayState_init t0) name k (PyInt 0) = PyInt 0" for k
    by (simp add: metric_def GatewayState_init_def)
  from record_observations_run[OF counters_ok_init, of calls t0]
  obtain s' where s': "record_observations calls (GatewayState_init t0) = (None, s')"
    "request_count s' = request_count (GatewayState_init t0) + int (length calls)"
    and rq: "\<And>m a. metric (GatewayState_init t0) m ''request_count'' (PyInt 0) = PyInt a \<Longrightarrow>
        metric s' m ''request_count'' (PyInt 0) =
          PyInt (a + int (length (filter (\<lambda>c. obs_name c = m) calls)))"
    and er: "\<And>m a. metric (GatewayState_init t0) m ''error_count'' (PyInt 0) = PyInt a \<Longrightarrow>
        metric s' m ''error_count'' (PyInt 0) =
          PyInt (a + int (length (filter (\<lambda>c. obs_name c = m \<and> obs_status c = ''error'') calls)))"
    by blast
  have le: "length (filter (\<lambda>c. obs_name c = name \<and> obs_status c = ''error'') calls) \<le>
     length (filter (\<lambda>c. obs_name c = name) calls)"
    by (induction calls) auto
  show ?thesis
    using s' rq[OF m0] er[OF m0] le by (simp add: GatewayState_init_def)
qed


text \<open>
  C1, at a concrete sequence: two calls naming \<open>api\<close>, one of them an error, and one call
  naming \<open>old\<close>.
\<close>

theorem C1_update_metrics_counts_witness:
  "metric (snd (record_observations three_calls (GatewayState_init 0)))
      ''api'' ''request_count'' (PyInt 0) = PyInt 2 \<and>
   metric (snd (record_observations three_calls (GatewayState_init 0)))
      ''api'' ''error_count'' (PyInt 0) = PyInt 1 \<and>
   request_count (snd (record_observations three_calls (GatewayState_init 0))) = 3"
proof -
  have n: "length (filter (\<lambda>c. obs_name c = ''api'') three_calls) = 2"
    "length (filter (\<lambda>c. obs_name c = ''api'' \<and> obs_status c = ''error'') three_calls) = 1"
    "length three_calls = 3"
    by (simp_all add: three_calls_def)
  from C1_update_metrics_counts [of three_calls 0 "''api''"] show ?thesis
    unfolding n by simp
qed

section \<open>Loading\<close>

lemma mount_module_state: "state (snd (mount_module w c prefix p)) = state p"
  by (simp add: mount_module_def Let_def split: cfg_value.splits module_outcome.splits)

lemma mount_proxy_state: "mount_proxy w url name prefix p = Some p' \<Longrightarrow> state p' = state p"
  by (auto simp: mount_proxy_def Let_def split: if_splits)

lemma mount_proxy_client:
  "mount_proxy w url name prefix p = Some p' \<Longrightarrow>
   gateway p' = gateway p @ [(ProxyServer \<lparr>client_url = url, client_headers = []\<rparr> name, prefix)]"
  by (auto simp: mount_proxy_def Let_def split: if_splits)

lemma set_update_subset: "set (AList.update k v al) \<subseteq> insert (k, v) (set al)"
  by (induction al) auto

lemma children_ok_update:
  assumes "children_ok s" and "map_of c ''type'' = Some t"
  shows "children_ok (s\<lparr>child_servers := AList.update n c (child_servers s)\<rparr>)"
proof -
  have "\<forall>x \<in> set (AList.update n c (child_servers s)). case x of (name, info) \<Rightarrow> map_of info ''type'' \<noteq> None"
    using assms set_update_subset[of n c "child_servers s"]
    by (auto simp: children_ok_def list_all_iff)
  then show ?thesis
    using assms(1) by (simp add: children_ok_def list_all_iff distinct_update)
qed

lemma load_entry_children_ok:
  assumes "children_ok (state p)"
  shows "children_ok (state (snd (load_entry w c p)))"
proof -
  have rc: "children_ok (state (snd (record_child name c q)))"
    if "children_ok (state q)" "map_of c ''type'' = Some t" for name t q
    using that children_ok_update[of "state q" c t]
    by (cases name) (simp_all add: record_child_def)
  show ?thesis
    using assms rc mount_module_state[of w c "cfg_get c ''prefix'' (CStr [])" p]
    by (auto simp: load_entry_def Let_def dest: mount_proxy_state
        split: option.splits sum.splits prod.splits bool.splits)
qed

lemma load_entries_children_ok:
  "children_ok (state p) \<Longrightarrow> children_ok (state (load_entries w cs p))"
proof (induction cs arbitrary: p)
  case Nil
  then show ?case by simp
next
  case (Cons c cs)
  from load_entry_children_ok[OF Cons.prems, of w c]
  have 1: "children_ok (state (snd (load_entry w c p)))" .
  show ?case
  proof (cases "load_entry w c p")
    case (Pair r p')
    with 1 have "children_ok (state p')" by simp
    with Pair Cons.IH[of p'] show ?thesis by (cases r) simp_all
  qed
qed

lemma load_child_servers_children_ok:
  "children_ok (state p) \<Longrightarrow> children_ok (state (load_child_servers w cfg p))"
  by (cases cfg) (simp_all add: load_entries_children_ok)

lemma children_ok_init: "children_ok (state (process_init t0))"
  by (simp add: children_ok_def process_init_def GatewayState_init_def)








text \<open>
  C9. The code at the failing input: the entry asks for a bearer token read from
  \<open>API_TOKEN\<close>, the \<open>headers\<close> dictionary is computed with the resolved token, and the
  client that is mounted holds no header.
\<close>

theorem C9_bearer_header_not_attached:
  "auth_headers [''API_TOKEN'' \<mapsto> ''s3cret''] secured_entry =
     Inr [(''Authorization'', ''Bearer s3cret'')] \<and>
   gateway (load_child_servers all_ok (Config [secured_entry])
      ((process_init 0)\<lparr>os_environ := [''API_TOKEN'' \<mapsto> ''s3cret'']\<rparr>)) =
     [(ProxyServer \<lparr>client_url = CStr ''http://h:9/mcp'', client_headers = []\<rparr> (CStr ''api''),
       CStr ''api'')]"
  by (simp add: load_entry_def secured_entry_def all_ok_def process_init_def
      GatewayState_init_def auth_headers_def mount_proxy_def cfg_get_def record_child_def)


section \<open>Probing all children\<close>












section \<open>The health check of one child\<close>

lemma api_type: "map_of api_entry ''type'' = Some (CStr ''proxy'')"
  by (simp add: api_entry_def)

lemma api_health_url: "health_check_url api_entry = Inr ''http://h:9/health''"
  by (simp add: health_check_url_def api_entry_def cfg_get_def startswith_def)

lemma api_probe_url: "check_proxy_url api_entry = Inr ''http://h:9/health''"
  by (simp add: check_proxy_url_def api_entry_def cfg_get_def startswith_def)

lemma one_proxy_api: "map_of (child_servers one_proxy) ''api'' = Some api_entry"
  by (simp add: one_proxy_def)

lemma update_metrics_observed:
  assumes "case metrics s name of None \<Rightarrow> True | Some r \<Rightarrow> has_counters r"
  shows "\<exists>r. update_metrics now name latency st s =
      (None, s\<lparr>metrics := (metrics s)(name \<mapsto> observed now latency st r),
            error_count := error_count s + (if st = ''error'' then 1 else 0),
            request_count := request_count s + 1\<rparr>)"
proof (cases "metrics s name")
  case None
  then show ?thesis using update_metrics_absent by blast
next
  case (Some r)
  with assms have "has_counters r" by simp
  with Some show ?thesis using update_metrics_present by blast
qed

text \<open>
  C4 (as amended). For a registered proxy child whose metrics record is absent or holds
  its counters: when the probe of its health endpoint answers 200, the handler answers
  200 and the record has connection status \<open>connected\<close> and status \<open>healthy\<close>; when the
  probe times out or the transport fails, the handler answers 503 and the record has
  connection status \<open>failed\<close> and status \<open>error\<close>.
\<close>

theorem C4_server_health_check_proxy:
  assumes "map_of (child_servers s) name = Some info"
    and "map_of info ''type'' = Some (CStr ''proxy'')"
    and "health_check_url info = Inr url"
    and "case metrics s name of None \<Rightarrow> True | Some r \<Rightarrow> has_counters r"
  shows "(net name url 5 = HttpStatus 200 \<longrightarrow>
           (\<exists>resp s'. server_health_check net now latency name s = (Inr resp, s') \<and>
              status_code resp = 200 \<and>
              metric s' name ''connection_status'' PyNone = PyStr ''connected'' \<and>
              metric s' name ''status'' PyNone = PyStr ''healthy'')) \<and>
         (net name url 5 = HttpTimeout \<or> net name url 5 = HttpTransportError \<longrightarrow>
           (\<exists>resp s'. server_health_check net now latency name s = (Inr resp, s') \<and>
              status_code resp = 503 \<and>
              metric s' name ''connection_status'' PyNone = PyStr ''failed'' \<and>
              metric s' name ''status'' PyNone = PyStr ''error''))"
  using update_metrics_observed[OF assms(4), of now latency "''healthy''"]
    update_metrics_observed[OF assms(4), of now latency "''error''"] assms(1,2,3)
  by (auto simp: server_health_check_def health_check_try_def health_check_except_def
      metric_def observed_connection_status observed_status Let_def)

theorem C4_server_health_check_proxy_witness:
  "(\<exists>resp s'. server_health_check (\<lambda>n u t. HttpStatus 200) 1 5000 ''api'' one_proxy = (Inr resp, s') \<and>
      status_code resp = 200 \<and>
      metric s' ''api'' ''connection_status'' PyNone = PyStr ''connected'' \<and>
      metric s' ''api'' ''status'' PyNone = PyStr ''healthy'') \<and>
   (\<exists>resp s'. server_health_check (\<lambda>n u t. HttpTimeout) 1 5000 ''api'' one_proxy = (Inr resp, s') \<and>
      status_code resp = 503 \<and>
      metric s' ''api'' ''connection_status'' PyNone = PyStr ''failed'' \<and>
      metric s' ''api'' ''status'' PyNone = PyStr ''error'')"
proof -
  have h4: "case metrics one_proxy ''api'' of None \<Rightarrow> True | Some r \<Rightarrow> has_counters r"
    by (simp add: one_proxy_def GatewayState_init_def)
  note t = C4_server_health_check_proxy [OF one_proxy_api api_type api_health_url h4]
  have a: "(\<lambda>n u t. HttpStatus 200) ''api'' ''http://h:9/health'' (5::real) = HttpStatus 200"
    by simp
  have b: "(\<lambda>n u t. HttpTimeout) ''api'' ''http://h:9/health'' (5::real) = HttpTimeout
     \<or> (\<lambda>n u t. HttpTimeout) ''api'' ''http://h:9/health'' (5::real) = HttpTransportError"
    by simp
  from t [of "\<lambda>n u t. HttpStatus 200" 1 5000] a
  have c1: "\<exists>resp s'. server_health_check (\<lambda>n u t. HttpStatus 200) 1 5000 ''api'' one_proxy = (Inr resp, s') \<and>
      status_code resp = 200 \<and>
      metric s' ''api'' ''connection_status'' PyNone = PyStr ''connected'' \<and>
      metric s' ''api'' ''status'' PyNone = PyStr ''healthy''"
    by blast
  from t [of "\<lambda>n u t. HttpTimeout" 1 5000] b
  have c2: "\<exists>resp s'. server_health_check (\<lambda>n u t. HttpTimeout) 1 5000 ''api'' one_proxy = (Inr resp, s') \<and>
      status_code resp = 503 \<and>
      metric s' ''api'' ''connection_status'' PyNone = PyStr ''failed'' \<and>
      metric s' ''api'' ''status'' PyNone = PyStr ''error''"
    by blast
  from c1 c2 show ?thesis by (rule conjI)
qed

text \<open>
  The claim as stated fails: the probe of \<open>api\<close> times out, and the record has
  connection status \<open>failed\<close>, not \<open>disconnected\<close>.
\<close>

theorem C4_counterexample:
  "metric (snd (server_health_check (\<lambda>n u t. HttpTimeout) 1 5000 ''api'' one_proxy))
      ''api'' ''connection_status'' PyNone = PyStr ''failed'' \<and>
   metric (snd (server_health_check (\<lambda>n u t. HttpTimeout) 1 5000 ''api'' one_proxy))
      ''api'' ''connection_status'' PyNone \<noteq> PyStr ''disconnected''"
  by (simp add: server_health_check_def health_check_try_def health_check_except_def
      metric_def one_proxy_def api_health_url api_type update_metrics_absent
      GatewayState_init_def observed_connection_status)

text \<open>
  C6. A health check for a name that is not a registered child returns a response with
  status 404, raises nothing, and leaves the whole gateway state as it was.
\<close>

theorem C6_unknown_server_not_found:
  assumes "map_of (child_servers s) server_name = None"
  shows "\<exists>resp. server_health_check net now latency server_name s = (Inr resp, s) \<and>
           status_code resp = 404"
  using assms by (simp add: server_health_check_def)

theorem C6_unknown_server_not_found_witness:
  "map_of (child_servers one_proxy) ''ghost'' = None \<and>
   (\<exists>resp. server_health_check (\<lambda>n u t. HttpStatus 200) 1 5000 ''ghost'' one_proxy
       = (Inr resp, one_proxy) \<and> status_code resp = 404)"
proof -
  have h: "map_of (child_servers one_proxy) ''ghost'' = None"
    by (simp add: one_proxy_def)
  have c: "\<exists>resp. server_health_check (\<lambda>n u t. HttpStatus 200) 1 5000 ''ghost'' one_proxy
       = (Inr resp, one_proxy) \<and> status_code resp = 404"
    by (rule C6_unknown_server_not_found [OF h])
  from h c show ?thesis by (rule conjI)
qed

section \<open>A record without counters\<close>

lemma probed_state:
  "check_server_connections False (\<lambda>n u t. HttpStatus 200) 1 one_proxy = (None, probed)"
  by (simp add: check_server_connections_def run_checks_def one_proxy_def api_type
      check_proxy_def check_proxy_try_def api_probe_url seq_def skip_def try_except_def
      ensure_empty_def set_item_def GatewayState_init_def probed_def)

text \<open>
  Under a running event loop the call returns before any probe has run, and the
  scheduled task leaves the same record when the loop runs it.
\<close>

lemma check_server_connections_scheduled:
  "check_server_connections True net now s = check_modules now (child_servers s) s"
  by (cases "check_modules now (child_servers s) s")
    (auto simp: check_server_connections_def seq_def skip_def split: option.splits)

lemma probed_state_scheduled:
  "check_server_connections True (\<lambda>n u t. HttpStatus 200) 1 one_proxy = (None, one_proxy) \<and>
   run_checks (\<lambda>n u t. HttpStatus 200) 1 one_proxy = (None, probed)"
  by (simp add: check_server_connections_def run_checks_def one_proxy_def api_type
      check_proxy_def check_proxy_try_def api_probe_url seq_def skip_def try_except_def
      ensure_empty_def set_item_def GatewayState_init_def probed_def)

lemma probed_update_metrics:
  "update_metrics now ''api'' l st probed = (Some KeyError, probed)"
  by (simp add: update_metrics_def seq_def ensure_metrics_def iadd_item_int_def probed_def)

lemma probed_status: "status now probed = (Inl KeyError, probed)"
  by (simp add: status_def status_row_def api_type probed_def one_proxy_def)

lemma probed_health_check:
  "server_health_check (\<lambda>n u t. HttpStatus 200) now l ''api'' probed = (Inl KeyError, probed)"
proof -
  have "map_of (child_servers probed) ''api'' = Some api_entry"
    by (simp add: probed_def one_proxy_def)
  then show ?thesis
    by (simp add: server_health_check_def api_type health_check_try_def api_health_url
        probed_update_metrics health_check_except_def)
qed

text \<open>
  C10. The code at the failing input: \<open>check_server_connections\<close>, called without a
  running event loop, probes the proxy child \<open>api\<close>, which has no metrics yet, and the
  probe answers 200. The record it creates
  has a connection status and no counters; then \<open>GET /status\<close>, \<open>update_metrics\<close> and
  \<open>GET /health/api\<close> all raise KeyError.
\<close>

theorem C10_probed_record_lacks_counters:
  "metric (snd (check_server_connections False (\<lambda>n u t. HttpStatus 200) 1 one_proxy))
      ''api'' ''connection_status'' PyNone = PyStr ''connected'' \<and>
   fst (status 2 (snd (check_server_connections False (\<lambda>n u t. HttpStatus 200) 1 one_proxy)))
      = Inl KeyError \<and>
   fst (update_metrics 2 ''api'' 10 ''healthy''
          (snd (check_server_connections False (\<lambda>n u t. HttpStatus 200) 1 one_proxy)))
      = Some KeyError \<and>
   fst (server_health_check (\<lambda>n u t. HttpStatus 200) 2 10 ''api''
          (snd (check_server_connections False (\<lambda>n u t. HttpStatus 200) 1 one_proxy)))
      = Inl KeyError"
  by (simp add: probed_state probed_status probed_update_metrics probed_health_check)
    (simp add: metric_def probed_def)

section \<open>Connections\<close>

lemma post_mcp_addr: "client_addr post_mcp = ''10.0.0.1:4242''"
  by (simp add: client_addr_def post_mcp_def str_nat.simps digit_char_def)

text \<open>What a \<open>POST /mcp\<close> leaves as the record of its client.\<close>

lemma LoggingMiddleware_call_record:
  assumes "scope_type sc = ''http''" and "scope_path sc = ''/mcp''"
    and "scope_method sc = ''POST''"
  shows "map_of (active_connections (LoggingMiddleware_call now sc s)) (client_addr sc) =
     Some \<lparr>connected_at = now, last_seen = now,
           requests = (case map_of (active_connections s) (client_addr sc) of
                         None \<Rightarrow> 0 | Some c \<Rightarrow> requests c) + 1\<rparr>"
  using assms by (simp add: LoggingMiddleware_call_def update_conv')

text \<open>
  C8. The code at the failing input: two \<open>POST /mcp\<close> requests from the same address,
  at 1 s and at 5 s. After the second one the record counts two requests and its
  \<open>connected_at\<close> is the time of the second request.
\<close>

theorem C8_connected_at_overwritten:
  "map_of (active_connections (LoggingMiddleware_call 1000000 post_mcp (GatewayState_init 0)))
     ''10.0.0.1:4242'' = Some \<lparr>connected_at = 1000000, last_seen = 1000000, requests = 1\<rparr> \<and>
   map_of (active_connections (LoggingMiddleware_call 5000000 post_mcp
             (LoggingMiddleware_call 1000000 post_mcp (GatewayState_init 0))))
     ''10.0.0.1:4242'' = Some \<lparr>connected_at = 5000000, last_seen = 5000000, requests = 2\<rparr>"
  by (simp add: LoggingMiddleware_call_def post_mcp_addr GatewayState_init_def)
    (simp add: post_mcp_def)

text \<open>The loop of \<open>make_info_panel\<close> keeps exactly the connections seen in the last 30 s.\<close>

lemma clean_up_filter:
  assumes "distinct (map fst conns)"
  shows "clean_up now ks conns =
     filter (\<lambda>(addr, c). \<not> (addr \<in> set ks \<and> now - last_seen c > 30 * 1000000)) conns"
  using assms
proof (induction ks arbitrary: conns)
  case Nil
  then show ?case by simp
next
  case (Cons k ks)
  let ?conns' = "(case map_of conns k of None \<Rightarrow> conns
        | Some c \<Rightarrow> if now - last_seen c > 30 * 1000000 then AList.delete k conns else conns)"
  have d': "distinct (map fst ?conns')"
    using Cons.prems by (auto split: option.splits simp: distinct_delete)
  have "clean_up now (k # ks) conns = clean_up now ks ?conns'" by simp
  also have "\<dots> =
      filter (\<lambda>(addr, c). \<not> (addr \<in> set ks \<and> now - last_seen c > 30 * 1000000)) ?conns'"
    by (rule Cons.IH[OF d'])
  also have "\<dots> =
      filter (\<lambda>(addr, c). \<not> (addr \<in> set (k # ks) \<and> now - last_seen c > 30 * 1000000)) conns"
  proof (cases "map_of conns k")
    case None
    then have "k \<notin> fst ` set conns" by (simp add: map_of_eq_None_iff)
    then have "\<And>a c. (a, c) \<in> set conns \<Longrightarrow> a \<noteq> k" by force
    with None show ?thesis by (auto intro!: filter_cong)
  next
    case (Some c)
    have uniq: "\<And>c'. (k, c') \<in> set conns \<Longrightarrow> c' = c"
      using Some Cons.prems by (simp add: map_of_is_SomeI)
    show ?thesis
    proof (cases "now - last_seen c > 30 * 1000000")
      case True
      with Some have "?conns' = filter (\<lambda>(a, _). a \<noteq> k) conns"
        by (auto simp: AList.delete_eq intro!: filter_cong)
      then show ?thesis using True uniq
        by (auto intro!: filter_cong)
    next
      case False
      with Some have "?conns' = conns" by simp
      then show ?thesis using False uniq
        by (auto intro!: filter_cong)
    qed
  qed
  finally show ?case .
qed

lemma make_info_panel_prunes:
  assumes "distinct (map fst (active_connections s))"
  shows "active_connections (snd (make_info_panel now s)) =
     filter (\<lambda>(addr, c). now - last_seen c \<le> 30 * 1000000) (active_connections s)"
proof -
  have "active_connections (snd (make_info_panel now s)) =
      filter (\<lambda>(addr, c). \<not> (addr \<in> set (map fst (active_connections s)) \<and>
         now - last_seen c > 30 * 1000000)) (active_connections s)"
    by (simp add: make_info_panel_def Let_def clean_up_filter[OF assms])
  also have "\<dots> = filter (\<lambda>(addr, c). now - last_seen c \<le> 30 * 1000000) (active_connections s)"
    by (rule filter_cong) force+
  finally show ?thesis .
qed

text \<open>
  C7. The code at the failing input: the only client was last seen 31 s before the
  refresh. The header of that refresh, built first, counts one client; the information
  panel, built after it, prunes the connection and counts none.
\<close>

theorem C7_header_counts_idle_client:
  "fst (update_display 31000000 idle_client) = (1, 0)"
  by (simp add: update_display_def make_header_def make_info_panel_def idle_client_def
      GatewayState_init_def AList.delete_eq)

end
